theory Spec2Isabelle
  imports Main "HOL-Library.Sublist"
begin

section \<open>Python strings\<close>

text \<open>
  A Python \<^verbatim>\<open>str\<close> is a sequence of Unicode code points. It is modelled as a list of
  natural numbers, one per code point; \<open>str\<close> turns a literal of the theory into such a
  list (the literals of the program are ASCII).
\<close>

type_synonym pystr = "nat list"

definition str :: "string \<Rightarrow> pystr" where
  "str s = map of_char s"

datatype py_exn =
    IndexError
  | ValueError
  | JSONDecodeError
  | FuelExhausted
  | ProviderError pystr

subsection \<open>\<^verbatim>\<open>str.replace(old, new)\<close>\<close>

text \<open>
  The occurrences of \<open>old\<close> are found from left to right and do not overlap. With an
  empty \<open>old\<close>, \<open>new\<close> is inserted before every code point and at the end.
\<close>

function py_replace :: "pystr \<Rightarrow> pystr \<Rightarrow> pystr \<Rightarrow> pystr" where
  "py_replace old new [] = (if old = [] then new else [])"
| "py_replace old new (c # cs) =
     (if old = [] then new @ c # py_replace old new cs
      else if prefix old (c # cs) then new @ py_replace old new (drop (length old) (c # cs))
      else c # py_replace old new cs)"
  by pat_completeness auto
termination
  by (relation "measure (\<lambda>(old, new, s). length s)") auto

subsection \<open>\<^verbatim>\<open>str.split(sep)\<close>\<close>

text \<open>
  \<open>split_from sep cur s\<close> scans \<open>s\<close> from left to right; \<open>cur\<close> is the segment read so
  far. Every occurrence of the separator closes a segment. An empty separator raises
  \<^verbatim>\<open>ValueError\<close>.
\<close>

function split_from :: "pystr \<Rightarrow> pystr \<Rightarrow> pystr \<Rightarrow> pystr list" where
  "split_from sep cur [] = [cur]"
| "split_from sep cur (c # cs) =
     (if sep \<noteq> [] \<and> prefix sep (c # cs)
      then cur # split_from sep [] (drop (length sep) (c # cs))
      else split_from sep (cur @ [c]) cs)"
  by pat_completeness auto
termination
  by (relation "measure (\<lambda>(sep, cur, s). length s)") auto

definition py_split :: "pystr \<Rightarrow> pystr \<Rightarrow> py_exn + pystr list" where
  "py_split sep s = (if sep = [] then Inl ValueError else Inr (split_from sep [] s))"

subsection \<open>\<^verbatim>\<open>str.strip()\<close>\<close>

text \<open>The code points for which \<^verbatim>\<open>str.isspace\<close> holds.\<close>

definition py_isspace :: "nat \<Rightarrow> bool" where
  "py_isspace c \<longleftrightarrow>
     (0x09 \<le> c \<and> c \<le> 0x0D) \<or> (0x1C \<le> c \<and> c \<le> 0x20) \<or> c = 0x85 \<or> c = 0xA0 \<or>
     c = 0x1680 \<or> (0x2000 \<le> c \<and> c \<le> 0x200A) \<or> c = 0x2028 \<or> c = 0x2029 \<or>
     c = 0x202F \<or> c = 0x205F \<or> c = 0x3000"

definition py_strip :: "pystr \<Rightarrow> pystr" where
  "py_strip s = rev (dropWhile py_isspace (rev (dropWhile py_isspace s)))"

subsection \<open>Indexing a list\<close>

definition py_index :: "'a list \<Rightarrow> nat \<Rightarrow> py_exn + 'a" where
  "py_index xs i = (if i < length xs then Inr (xs ! i) else Inl IndexError)"

section \<open>Prompt Builder: \<^verbatim>\<open>get_lab_prompt\<close>\<close>

definition topics :: "pystr list" where
  "topics = [str ''OSPF Single Area'', str ''VLANs & Trunking'', str ''ACL (Standard/Extended)'',
             str ''NAT (Static/Dynamic)'', str ''BGP Basics'']"

definition difficulties :: "pystr list" where
  "difficulties = [str ''Junior Admin'', str ''Network Engineer'', str ''CCIE Expert'']"

definition fence :: pystr where
  "fence = str ''```''"

definition fence_json :: pystr where
  "fence_json = str ''```json''"

definition get_lab_prompt :: "pystr \<Rightarrow> pystr \<Rightarrow> pystr" where
  \<open>get_lab_prompt topic difficulty =
     str ''\<newline>'' @
     str ''    Act as a Cisco Certified Internetwork Expert (CCIE).\<newline>'' @
     str ''    Create a CCNA Practice Lab for the topic: '' @ topic @ str ''.\<newline>'' @
     str ''    Difficulty Level: '' @ difficulty @ str ''.\<newline>'' @
     str ''\<newline>'' @
     str ''    You MUST return the output in valid JSON format ONLY. Do not add markdown backticks ('' @
       str ''```json'' @ str '').\<newline>'' @
     str ''    Structure the JSON exactly like this:\<newline>'' @
     str ''    {\<newline>'' @
     str ''        "lab_title": "String",\<newline>'' @
     str ''        "scenario_description": "String (Short business context)",\<newline>'' @
     str ''        "topology_connections": [\<newline>'' @
     str ''            "Router1 (G0/0) -> Switch1 (G0/1)",\<newline>'' @
     str ''            "Switch1 (F0/1) -> PC1"\<newline>'' @
     str ''        ],\<newline>'' @
     str ''        "device_configurations": {\<newline>'' @
     str ''            "Router1": "IP: 192.168.1.1/24",\<newline>'' @
     str ''            "PC1": "IP: 192.168.1.10/24"\<newline>'' @
     str ''        },\<newline>'' @
     str ''        "tasks": [\<newline>'' @
     str ''            "Step 1: ...",\<newline>'' @
     str ''            "Step 2: ..."\<newline>'' @
     str ''        ],\<newline>'' @
     str ''        "solution_commands": "Full IOS command list to solve it",\<newline>'' @
     str ''        "verification_commands": "List of 'show' commands to verify"\<newline>'' @
     str ''    }\<newline>'' @
     str ''    ''\<close>

section \<open>Topology Extractor: the loop over \<^verbatim>\<open>topology_connections\<close>\<close>

text \<open>
  The body of the \<^verbatim>\<open>try\<close> block for one connection: any exception raised in it is the
  \<open>Inl\<close> result, which the loop's bare \<^verbatim>\<open>except\<close> turns into skipping the entry.
\<close>

definition connection_edge :: "pystr \<Rightarrow> py_exn + (pystr \<times> pystr)" where
  "connection_edge connection =
     (case py_split (str ''->'') connection of
        Inl e \<Rightarrow> Inl e
      | Inr parts \<Rightarrow>
          (case py_index parts 0 of
             Inl e \<Rightarrow> Inl e
           | Inr p0 \<Rightarrow>
               (case py_index parts 1 of
                  Inl e \<Rightarrow> Inl e
                | Inr p1 \<Rightarrow> Inr (py_strip p0, py_strip p1))))"

text \<open>The \<^verbatim>\<open>graphviz.Digraph\<close>: its attributes and its edges, in the order they were added.\<close>

record digraph =
  graph_attrs :: "(pystr \<times> pystr) list"
  graph_edges :: "(pystr \<times> pystr) list"

definition new_digraph :: digraph where
  "new_digraph = \<lparr>graph_attrs = [(str ''rankdir'', str ''LR'')], graph_edges = []\<rparr>"

definition graph_edge :: "digraph \<Rightarrow> pystr \<Rightarrow> pystr \<Rightarrow> digraph" where
  "graph_edge g src dst = g\<lparr>graph_edges := graph_edges g @ [(src, dst)]\<rparr>"

fun topology_loop :: "digraph \<Rightarrow> pystr list \<Rightarrow> digraph" where
  "topology_loop g [] = g"
| "topology_loop g (connection # rest) =
     (case connection_edge connection of
        Inr (src, dst) \<Rightarrow> topology_loop (graph_edge g src dst) rest
      | Inl e \<Rightarrow> topology_loop g rest)"

definition extract_edges :: "pystr list \<Rightarrow> (pystr \<times> pystr) list" where
  "extract_edges connections = graph_edges (topology_loop new_digraph connections)"

section \<open>JSON values and \<^verbatim>\<open>json.loads\<close>\<close>

text \<open>
  The values \<^verbatim>\<open>json.loads\<close> returns: \<^verbatim>\<open>None\<close>, booleans, integers (unbounded),
  floats, strings, lists and dictionaries with string keys. A dictionary keeps its keys
  in insertion order, each key once. Python floats are IEEE doubles; they are kept
  abstract (the type \<open>'f\<close>), with the three operations the program applies to them
  taken as parameters.
\<close>

datatype 'f json =
    JNull
  | JBool bool
  | JInt int
  | JFloat 'f
  | JStr pystr
  | JArr "'f json list"
  | JObj "(pystr \<times> 'f json) list"

record 'f pyfloat =
  float_of_str :: "pystr \<Rightarrow> 'f"
  float_bool :: "'f \<Rightarrow> bool"
  float_repr :: "'f \<Rightarrow> pystr"

text \<open>Truth value of a Python object, as \<^verbatim>\<open>if lab_data:\<close> reads it.\<close>

fun py_bool :: "'f pyfloat \<Rightarrow> 'f json \<Rightarrow> bool" where
  "py_bool F JNull = False"
| "py_bool F (JBool b) = b"
| "py_bool F (JInt i) = (i \<noteq> 0)"
| "py_bool F (JFloat x) = float_bool F x"
| "py_bool F (JStr s) = (s \<noteq> [])"
| "py_bool F (JArr xs) = (xs \<noteq> [])"
| "py_bool F (JObj kvs) = (kvs \<noteq> [])"

text \<open>\<^verbatim>\<open>d[k] = v\<close>: an existing key keeps its place and takes the new value.\<close>

fun dict_set :: "(pystr \<times> 'v) list \<Rightarrow> pystr \<Rightarrow> 'v \<Rightarrow> (pystr \<times> 'v) list" where
  "dict_set [] k v = [(k, v)]"
| "dict_set ((k', v') # kvs) k v =
     (if k' = k then (k, v) # kvs else (k', v') # dict_set kvs k v)"

fun dict_get :: "(pystr \<times> 'v) list \<Rightarrow> pystr \<Rightarrow> 'v option" where
  "dict_get [] k = None"
| "dict_get ((k', v') # kvs) k = (if k' = k then Some v' else dict_get kvs k)"

subsection \<open>The scanner\<close>

definition json_ws :: "nat \<Rightarrow> bool" where
  "json_ws c \<longleftrightarrow> c = 0x20 \<or> c = 0x09 \<or> c = 0x0A \<or> c = 0x0D"

definition skip_ws :: "pystr \<Rightarrow> pystr" where
  "skip_ws s = dropWhile json_ws s"

definition is_digit :: "nat \<Rightarrow> bool" where
  "is_digit c \<longleftrightarrow> 48 \<le> c \<and> c \<le> 57"

definition hex_digit :: "nat \<Rightarrow> nat option" where
  "hex_digit c =
     (if 48 \<le> c \<and> c \<le> 57 then Some (c - 48)
      else if 97 \<le> c \<and> c \<le> 102 then Some (c - 87)
      else if 65 \<le> c \<and> c \<le> 70 then Some (c - 55)
      else None)"

fun hex4 :: "pystr \<Rightarrow> (nat \<times> pystr) option" where
  "hex4 (a # b # c # d # r) =
     (case hex_digit a of None \<Rightarrow> None | Some x \<Rightarrow>
      case hex_digit b of None \<Rightarrow> None | Some y \<Rightarrow>
      case hex_digit c of None \<Rightarrow> None | Some z \<Rightarrow>
      case hex_digit d of None \<Rightarrow> None | Some w \<Rightarrow>
        Some (((x * 16 + y) * 16 + z) * 16 + w, r))"
| "hex4 s = None"

text \<open>
  The part of a string literal after a backslash: the code point it stands for and the
  rest of the text. A high surrogate followed by an escaped low surrogate is one code
  point.
\<close>

definition scan_escape :: "pystr \<Rightarrow> (nat \<times> pystr) option" where
  "scan_escape s =
     (case s of
        [] \<Rightarrow> None
      | e # es \<Rightarrow>
          if e = 117 then
            (case hex4 es of
               None \<Rightarrow> None
             | Some (uni, r) \<Rightarrow>
                 if 0xD800 \<le> uni \<and> uni \<le> 0xDBFF \<and> prefix [92, 117] r then
                   (case hex4 (drop 2 r) of
                      None \<Rightarrow> None
                    | Some (uni2, r2) \<Rightarrow>
                        if 0xDC00 \<le> uni2 \<and> uni2 \<le> 0xDFFF
                        then Some (0x10000 + ((uni - 0xD800) * 1024 + (uni2 - 0xDC00)), r2)
                        else Some (uni, r))
                 else Some (uni, r))
          else if e = 34 then Some (34, es)
          else if e = 92 then Some (92, es)
          else if e = 47 then Some (47, es)
          else if e = 98 then Some (8, es)
          else if e = 102 then Some (12, es)
          else if e = 110 then Some (10, es)
          else if e = 114 then Some (13, es)
          else if e = 116 then Some (9, es)
          else None)"

lemma hex4_length: "hex4 s = Some (v, r) \<Longrightarrow> length s = length r + 4"
  by (cases s rule: hex4.cases) (auto split: option.splits)

lemma scan_escape_length: "scan_escape s = Some (u, r) \<Longrightarrow> length r < length s"
  by (auto simp: scan_escape_def split: list.splits option.splits if_splits dest!: hex4_length)

text \<open>
  \<open>scanstring acc s\<close> reads a string literal whose opening quote has been consumed, up
  to its closing quote (strict mode: a control character in the literal is an error).
\<close>

function scanstring :: "pystr \<Rightarrow> pystr \<Rightarrow> py_exn + (pystr \<times> pystr)" where
  "scanstring acc [] = Inl JSONDecodeError"
| "scanstring acc (c # cs) =
     (if c = 34 then Inr (acc, cs)
      else if c = 92 then
        (case scan_escape cs of
           None \<Rightarrow> Inl JSONDecodeError
         | Some (u, r) \<Rightarrow> scanstring (acc @ [u]) r)
      else if c < 32 then Inl JSONDecodeError
      else scanstring (acc @ [c]) cs)"
  by pat_completeness auto
termination scanstring
  by (relation "measure (\<lambda>(acc, s). length s)") (auto dest: scan_escape_length)

definition digits_val :: "pystr \<Rightarrow> nat" where
  "digits_val ds = foldl (\<lambda>a d. a * 10 + (d - 48)) 0 ds"

text \<open>\<^verbatim>\<open>int(s)\<close> on an optional minus sign followed by decimal digits.\<close>

definition py_int :: "pystr \<Rightarrow> int" where
  "py_int s = (case s of
       [] \<Rightarrow> 0
     | c # ds \<Rightarrow> if c = 45 then - int (digits_val ds) else int (digits_val (c # ds)))"

text \<open>
  The number at the start of the text, if there is one: whether it is a float (it has a
  fraction or an exponent), its text, and the rest.
\<close>

definition match_number :: "pystr \<Rightarrow> (bool \<times> pystr \<times> pystr) option" where
  "match_number s =
     (let (sign, s1) = (case s of [] \<Rightarrow> ([], s) | c # t \<Rightarrow> if c = 45 then ([c], t) else ([], s))
      in case s1 of
           [] \<Rightarrow> None
         | d # t \<Rightarrow>
             if \<not> is_digit d then None
             else
               let (ip, s2) = (if d = 48 then ([d], t)
                               else (d # takeWhile is_digit t, dropWhile is_digit t));
                   (fp, s3) = (case s2 of
                                 p # f # t' \<Rightarrow>
                                   if p = 46 \<and> is_digit f
                                   then (p # takeWhile is_digit (f # t'), dropWhile is_digit (f # t'))
                                   else ([], s2)
                               | _ \<Rightarrow> ([], s2));
                   (ep, s4) = (case s3 of
                                 [] \<Rightarrow> ([], s3)
                               | e # t' \<Rightarrow>
                                   if e = 101 \<or> e = 69 then
                                     (let (es, t2) = (case t' of
                                                        [] \<Rightarrow> ([], t')
                                                      | g # t'' \<Rightarrow>
                                                          if g = 43 \<or> g = 45 then ([g], t'')
                                                          else ([], t'))
                                      in case t2 of
                                           [] \<Rightarrow> ([], s3)
                                         | x # _ \<Rightarrow>
                                             if is_digit x
                                             then (e # es @ takeWhile is_digit t2, dropWhile is_digit t2)
                                             else ([], s3))
                                   else ([], s3))
               in Some (fp \<noteq> [] \<or> ep \<noteq> [], sign @ ip @ fp @ ep, s4))"

text \<open>
  \<open>scan_once\<close> reads one value at the start of the text; \<open>array_loop\<close> and
  \<open>object_loop\<close> read the items of a non-empty list and the pairs of a non-empty
  dictionary. The first number bounds the calls still allowed: \<open>json_loads\<close> starts
  with more than the text can use.
\<close>

fun scan_once :: "'f pyfloat \<Rightarrow> nat \<Rightarrow> pystr \<Rightarrow> py_exn + ('f json \<times> pystr)"
  and array_loop :: "'f pyfloat \<Rightarrow> nat \<Rightarrow> 'f json list \<Rightarrow> pystr \<Rightarrow> py_exn + ('f json \<times> pystr)"
  and object_loop ::
    "'f pyfloat \<Rightarrow> nat \<Rightarrow> (pystr \<times> 'f json) list \<Rightarrow> pystr \<Rightarrow> py_exn + ('f json \<times> pystr)"
where
  "scan_once F 0 s = Inl FuelExhausted"
| "scan_once F (Suc n) s =
     (case s of
        [] \<Rightarrow> Inl JSONDecodeError
      | c # cs \<Rightarrow>
          if c = 34 then
            (case scanstring [] cs of Inl e \<Rightarrow> Inl e | Inr (x, r) \<Rightarrow> Inr (JStr x, r))
          else if c = 123 then
            (case skip_ws cs of
               [] \<Rightarrow> Inl JSONDecodeError
             | d # r \<Rightarrow> if d = 125 then Inr (JObj [], r) else object_loop F n [] (d # r))
          else if c = 91 then
            (case skip_ws cs of
               [] \<Rightarrow> Inl JSONDecodeError
             | d # r \<Rightarrow> if d = 93 then Inr (JArr [], r) else array_loop F n [] (d # r))
          else if prefix (str ''null'') s then Inr (JNull, drop 4 s)
          else if prefix (str ''true'') s then Inr (JBool True, drop 4 s)
          else if prefix (str ''false'') s then Inr (JBool False, drop 5 s)
          else if prefix (str ''NaN'') s then Inr (JFloat (float_of_str F (str ''NaN'')), drop 3 s)
          else if prefix (str ''Infinity'') s
            then Inr (JFloat (float_of_str F (str ''Infinity'')), drop 8 s)
          else if prefix (str ''-Infinity'') s
            then Inr (JFloat (float_of_str F (str ''-Infinity'')), drop 9 s)
          else
            (case match_number s of
               None \<Rightarrow> Inl JSONDecodeError
             | Some (is_float, numstr, r) \<Rightarrow>
                 if is_float then Inr (JFloat (float_of_str F numstr), r)
                 else Inr (JInt (py_int numstr), r)))"
| "array_loop F 0 acc s = Inl FuelExhausted"
| "array_loop F (Suc n) acc s =
     (case scan_once F n s of
        Inl e \<Rightarrow> Inl e
      | Inr (v, r) \<Rightarrow>
          (case skip_ws r of
             [] \<Rightarrow> Inl JSONDecodeError
           | d # r' \<Rightarrow>
               if d = 93 then Inr (JArr (acc @ [v]), r')
               else if d = 44 then array_loop F n (acc @ [v]) (skip_ws r')
               else Inl JSONDecodeError))"
| "object_loop F 0 acc s = Inl FuelExhausted"
| "object_loop F (Suc n) acc s =
     (case s of
        [] \<Rightarrow> Inl JSONDecodeError
      | q # cs \<Rightarrow>
          if q \<noteq> 34 then Inl JSONDecodeError
          else
            (case scanstring [] cs of
               Inl e \<Rightarrow> Inl e
             | Inr (key, r) \<Rightarrow>
                 (case skip_ws r of
                    [] \<Rightarrow> Inl JSONDecodeError
                  | c # r1 \<Rightarrow>
                      if c \<noteq> 58 then Inl JSONDecodeError
                      else
                        (case scan_once F n (skip_ws r1) of
                           Inl e \<Rightarrow> Inl e
                         | Inr (v, r2) \<Rightarrow>
                             (case skip_ws r2 of
                                [] \<Rightarrow> Inl JSONDecodeError
                              | d # r3 \<Rightarrow>
                                  if d = 125 then Inr (JObj (dict_set acc key v), r3)
                                  else if d = 44 then object_loop F n (dict_set acc key v) (skip_ws r3)
                                  else Inl JSONDecodeError)))))"

text \<open>
  \<^verbatim>\<open>json.loads(s)\<close> for a \<^verbatim>\<open>str\<close>: a leading byte order mark is refused, white space
  around the one value is skipped, anything after it is an error.
\<close>

definition json_loads :: "'f pyfloat \<Rightarrow> pystr \<Rightarrow> py_exn + 'f json" where
  "json_loads F s =
     (if prefix [0xFEFF] s then Inl JSONDecodeError
      else
        (case scan_once F (2 * length s + 1) (skip_ws s) of
           Inl e \<Rightarrow> Inl e
         | Inr (obj, r) \<Rightarrow> if skip_ws r = [] then Inr obj else Inl JSONDecodeError))"

section \<open>Lab Generator: \<^verbatim>\<open>generate_lab\<close>\<close>

text \<open>
  What the program does besides returning a value is kept in a state: the messages given
  to \<^verbatim>\<open>st.error\<close>, the prompts sent to the model provider with \<^verbatim>\<open>generate_content\<close>, in
  order, and the entry \<^verbatim>\<open>lab_data\<close> of the session state (\<open>None\<close>: no such entry).
\<close>

datatype ui_error =
    MissingKeyMessage
  | GenerationFailed py_exn

record 'f ui_state =
  errors_shown :: "ui_error list"
  provider_calls :: "pystr list"
  session_lab :: "'f json option"

definition st_error :: "ui_error \<Rightarrow> 'f ui_state \<Rightarrow> 'f ui_state" where
  "st_error m st = st\<lparr>errors_shown := errors_shown st @ [m]\<rparr>"

definition clean_text :: "pystr \<Rightarrow> pystr" where
  "clean_text text = py_replace (str ''```'') [] (py_replace (str ''```json'') [] text)"

text \<open>
  The provider is any function from the prompt to the text of its response, or to the
  exception the call (or reading the response's text) raises. \<^verbatim>\<open>return None\<close> is the
  value \<open>JNull\<close>.
\<close>

definition generate_lab ::
  "'f pyfloat \<Rightarrow> (pystr \<Rightarrow> py_exn + pystr) \<Rightarrow> pystr \<Rightarrow> pystr \<Rightarrow> pystr \<Rightarrow> 'f ui_state
     \<Rightarrow> 'f json \<times> 'f ui_state" where
  "generate_lab F provider api_key topic difficulty st =
     (if api_key = [] then (JNull, st_error MissingKeyMessage st)
      else
        let st1 = st\<lparr>provider_calls := provider_calls st @ [get_lab_prompt topic difficulty]\<rparr>
        in case provider (get_lab_prompt topic difficulty) of
             Inl e \<Rightarrow> (JNull, st_error (GenerationFailed e) st1)
           | Inr text \<Rightarrow>
               (case json_loads F (clean_text text) of
                  Inl e \<Rightarrow> (JNull, st_error (GenerationFailed e) st1)
                | Inr lab_data \<Rightarrow> (lab_data, st1)))"

text \<open>The handler of the button \<^verbatim>\<open>Generate New Lab\<close>.\<close>

definition generate_button ::
  "'f pyfloat \<Rightarrow> (pystr \<Rightarrow> py_exn + pystr) \<Rightarrow> pystr \<Rightarrow> pystr \<Rightarrow> pystr \<Rightarrow> 'f ui_state
     \<Rightarrow> 'f ui_state" where
  "generate_button F provider api_key topic difficulty st =
     (case generate_lab F provider api_key topic difficulty st of
        (lab_data, st') \<Rightarrow>
          if py_bool F lab_data then st'\<lparr>session_lab := Some lab_data\<rparr> else st')"

section \<open>The Lab record and the statements of the specification\<close>

text \<open>The seven keys the display code reads from \<^verbatim>\<open>data\<close>, as the prompt names them.\<close>

definition lab_fields :: "pystr list" where
  "lab_fields = [str ''lab_title'', str ''scenario_description'', str ''topology_connections'',
     str ''device_configurations'', str ''tasks'', str ''solution_commands'',
     str ''verification_commands'']"

text \<open>\<^verbatim>\<open>data[key]\<close> for a dictionary; \<open>None\<close> where Python raises.\<close>

fun json_get :: "'f json \<Rightarrow> pystr \<Rightarrow> 'f json option" where
  "json_get (JObj kvs) k = dict_get kvs k"
| "json_get v k = None"

definition missing_field :: "'f json \<Rightarrow> bool" where
  "missing_field v = list_ex (\<lambda>k. json_get v k = None) lab_fields"

text \<open>
  A float implementation for the closed examples below, none of which holds a float.
\<close>

definition no_floats :: "unit pyfloat" where
  "no_floats = \<lparr>float_of_str = (\<lambda>s. ()), float_bool = (\<lambda>x. True), float_repr = (\<lambda>x. [])\<rparr>"

text \<open>
  The Topology Extractor as the specification words it: split at the first occurrence of
  the delimiter only, and keep the entry only if that gives exactly two segments that are
  not empty once trimmed.
\<close>

fun split_first :: "pystr \<Rightarrow> pystr \<Rightarrow> pystr \<Rightarrow> pystr list" where
  "split_first sep cur [] = [cur]"
| "split_first sep cur (c # cs) =
     (if prefix sep (c # cs) then [cur, drop (length sep) (c # cs)]
      else split_first sep (cur @ [c]) cs)"

definition spec_connection_edge :: "pystr \<Rightarrow> (pystr \<times> pystr) option" where
  "spec_connection_edge entry =
     (case split_first (str ''->'') [] entry of
        [a, b] \<Rightarrow>
          if py_strip a \<noteq> [] \<and> py_strip b \<noteq> [] then Some (py_strip a, py_strip b) else None
      | _ \<Rightarrow> None)"

section \<open>Properties of the Lab Generator\<close>

text \<open>
  C4: called with an empty credential, \<open>generate_lab\<close> returns no Lab (\<^verbatim>\<open>None\<close>), shows the
  message asking for the key, and sends nothing to the model provider: the list of calls
  made to the provider is the one it started with.
\<close>

theorem generate_lab_missing_credential:
  "generate_lab F provider [] topic difficulty st =
     (JNull, st\<lparr>errors_shown := errors_shown st @ [MissingKeyMessage]\<rparr>) \<and>
   provider_calls (snd (generate_lab F provider [] topic difficulty st)) = provider_calls st \<and>
   provider_calls (generate_button F provider [] topic difficulty st) = provider_calls st"
  by (simp add: generate_lab_def generate_button_def st_error_def)

text \<open>
  C9: one invocation of \<open>generate_lab\<close>, and one press of the button, add at most one call
  to the calls made to the provider, whether the call succeeds or fails: none with an empty
  credential, and otherwise exactly the one call carrying the built prompt.
\<close>

theorem generate_lab_single_provider_call:
  "provider_calls (snd (generate_lab F provider api_key topic difficulty st)) =
     (if api_key = [] then provider_calls st
      else provider_calls st @ [get_lab_prompt topic difficulty]) \<and>
   provider_calls (generate_button F provider api_key topic difficulty st) =
     (if api_key = [] then provider_calls st
      else provider_calls st @ [get_lab_prompt topic difficulty]) \<and>
   length (provider_calls (generate_button F provider api_key topic difficulty st))
     \<le> Suc (length (provider_calls st))"
  by (auto simp: generate_lab_def generate_button_def st_error_def Let_def
      split: sum.splits prod.splits)

section \<open>Facts about the string operations\<close>

lemma str_arrow: "str ''->'' = [45, 62]" by (simp add: str_def)
lemma str_fence: "str ''```'' = [96, 96, 96]" by (simp add: str_def)
lemma str_fence_json: "str ''```json'' = [96, 96, 96, 106, 115, 111, 110]" by (simp add: str_def)

lemma py_replace_absent: "\<not> sublist old s \<Longrightarrow> py_replace old new s = s"
proof (induction s)
  case Nil
  then show ?case by simp
next
  case (Cons c cs)
  then have "old \<noteq> []" by auto
  moreover have "\<not> prefix old (c # cs)" using Cons.prems by auto
  moreover have "\<not> sublist old cs" using Cons.prems by (simp add: sublist_Cons_right)
  ultimately show ?case using Cons.IH by simp
qed

lemma prefix_replicate_iff:
  "prefix (replicate n x) s \<longleftrightarrow> n \<le> length (takeWhile (\<lambda>c. c = x) s)"
proof (induction n arbitrary: s)
  case 0
  show ?case by simp
next
  case (Suc n)
  show ?case by (cases s) (auto simp: Suc)
qed

lemma prefix_fence_iff:
  "prefix [96, 96, 96] s \<longleftrightarrow> 3 \<le> length (takeWhile (\<lambda>c. c = 96) s)"
  using prefix_replicate_iff [of 3 96 s] by (simp add: numeral_3_eq_3)

lemma ticks_py_replace:
  "length (takeWhile (\<lambda>c. c = 96) (py_replace [96, 96, 96] [] s)) =
     length (takeWhile (\<lambda>c. c = 96) s) mod 3"
proof (induction "length s" arbitrary: s rule: less_induct)
  case less
  show ?case
  proof (cases s)
    case Nil
    then show ?thesis by simp
  next
    case (Cons c cs)
    show ?thesis
    proof (cases "prefix [96, 96, 96] s")
      case True
      then obtain r where r: "s = 96 # 96 # 96 # r" by (auto simp: prefix_def)
      then have "length r < length s" by simp
      from less [OF this] show ?thesis using r by simp
    next
      case False
      then have lt: "length (takeWhile (\<lambda>c. c = 96) s) < 3"
        by (simp add: prefix_fence_iff)
      have "length cs < length s" using Cons by simp
      from less [OF this] show ?thesis using False Cons lt by (auto split: if_splits)
    qed
  qed
qed

lemma no_prefix_fence_replace: "\<not> prefix [96, 96, 96] (py_replace [96, 96, 96] [] s)"
  by (simp add: prefix_fence_iff ticks_py_replace)

lemma no_fence_after_replace: "\<not> sublist [96, 96, 96] (py_replace [96, 96, 96] [] s)"
proof (induction "length s" arbitrary: s rule: less_induct)
  case less
  show ?case
  proof (cases s)
    case Nil
    then show ?thesis by simp
  next
    case (Cons c cs)
    show ?thesis
    proof (cases "prefix [96, 96, 96] s")
      case True
      then obtain r where r: "s = 96 # 96 # 96 # r" by (auto simp: prefix_def)
      from less [of r] r show ?thesis by simp
    next
      case False
      have eq: "py_replace [96, 96, 96] [] s = c # py_replace [96, 96, 96] [] cs"
        using False unfolding Cons by (subst py_replace.simps) auto
      have "\<not> sublist [96, 96, 96] (py_replace [96, 96, 96] [] cs)"
        using less [of cs] Cons by simp
      moreover have "\<not> prefix [96, 96, 96] (c # py_replace [96, 96, 96] [] cs)"
        using no_prefix_fence_replace [of s] unfolding eq .
      ultimately show ?thesis unfolding eq sublist_Cons_right by blast
    qed
  qed
qed

lemma py_replace_trailing_fence:
  "\<not> sublist [96, 96, 96] J \<Longrightarrow> py_replace [96, 96, 96] [] (J @ [96, 96, 96]) = J"
proof (induction J)
  case Nil
  show ?case by simp
next
  case (Cons c cs)
  have nocs: "\<not> sublist [96, 96, 96] cs"
    using Cons.prems by (simp add: sublist_Cons_right)
  have np: "\<not> prefix [96, 96, 96] (c # cs)"
    using Cons.prems by (auto simp: sublist_Cons_right)
  show ?case
  proof (cases "prefix [96, 96, 96] ((c # cs) @ [96, 96, 96])")
    case False
    then have "py_replace [96, 96, 96] [] ((c # cs) @ [96, 96, 96]) =
        c # py_replace [96, 96, 96] [] (cs @ [96, 96, 96])"
      unfolding append_Cons by (subst py_replace.simps) auto
    then show ?thesis using Cons.IH [OF nocs] by simp
  next
    case True
    have "c # cs = [96] \<or> c # cs = [96, 96]"
    proof (cases cs)
      case Nil
      with True show ?thesis by simp
    next
      case (Cons x xs)
      with True np show ?thesis by (cases xs) auto
    qed
    then show ?thesis by auto
  qed
qed

lemma no_fence_json_in_tail:
  assumes "\<not> sublist [96, 96, 96] J"
  shows "\<not> sublist [96, 96, 96, 106, 115, 111, 110] (J @ [96, 96, 96])"
proof
  assume "sublist [96, 96, 96, 106, 115, 111, 110] (J @ [96, 96, 96])"
  then obtain ps ss where "J @ [96, 96, 96] = ps @ [96, 96, 96, 106, 115, 111, 110] @ ss"
    by (auto simp: sublist_def)
  then have "J @ [96, 96, 96] = (ps @ [96, 96, 96]) @ ([106, 115, 111, 110] @ ss)"
    by simp
  then obtain us where
    "(J = (ps @ [96, 96, 96]) @ us \<and> us @ [96, 96, 96] = [106, 115, 111, 110] @ ss) \<or>
     (J @ us = ps @ [96, 96, 96] \<and> [96, 96, 96] = us @ [106, 115, 111, 110] @ ss)"
    unfolding append_eq_append_conv2 by blast
  then show False
  proof
    assume "J = (ps @ [96, 96, 96]) @ us \<and> us @ [96, 96, 96] = [106, 115, 111, 110] @ ss"
    then have "sublist [96, 96, 96] J" by (auto simp: sublist_def)
    with assms show False ..
  next
    assume "J @ us = ps @ [96, 96, 96] \<and> [96, 96, 96] = us @ [106, 115, 111, 110] @ ss"
    then have "length [96, 96, 96 :: nat] = length (us @ [106, 115, 111, 110] @ ss)" by simp
    then show False by simp
  qed
qed

lemma clean_text_wrapped:
  assumes "\<not> sublist (str ''```'') J"
  shows "clean_text (str ''```json'' @ J @ str ''```'') = J"
proof -
  have nf: "\<not> sublist [96, 96, 96] J" using assms by (simp add: str_fence)
  have "py_replace [96, 96, 96, 106, 115, 111, 110] [] ([96, 96, 96, 106, 115, 111, 110] @ J @ [96, 96, 96])
        = py_replace [96, 96, 96, 106, 115, 111, 110] [] (J @ [96, 96, 96])"
    by simp
  also have "\<dots> = J @ [96, 96, 96]"
    by (rule py_replace_absent) (rule no_fence_json_in_tail [OF nf])
  finally show ?thesis
    by (simp add: clean_text_def str_fence str_fence_json py_replace_trailing_fence [OF nf])
qed

lemma split_from_absent: "\<not> sublist sep s \<Longrightarrow> split_from sep cur s = [cur @ s]"
proof (induction s arbitrary: cur)
  case Nil
  show ?case by simp
next
  case (Cons c cs)
  have "\<not> prefix sep (c # cs)" using Cons.prems by auto
  moreover have "\<not> sublist sep cs" using Cons.prems by (simp add: sublist_Cons_right)
  ultimately show ?case using Cons.IH [of "cur @ [c]"] by simp
qed

lemma split_from_arrow:
  "\<not> sublist [45, 62] a \<Longrightarrow>
     split_from [45, 62] cur (a @ 45 # 62 # r) = (cur @ a) # split_from [45, 62] [] r"
proof (induction a arbitrary: cur)
  case Nil
  show ?case by simp
next
  case (Cons c cs)
  have "\<not> prefix [45, 62] ((c # cs) @ 45 # 62 # r)"
    using Cons.prems by (cases cs) (auto simp: sublist_Cons_right)
  moreover have "\<not> sublist [45, 62] cs" using Cons.prems by (simp add: sublist_Cons_right)
  ultimately show ?case using Cons.IH [of "cur @ [c]"] by simp
qed

lemma connection_edge_no_arrow:
  "\<not> sublist (str ''->'') s \<Longrightarrow> connection_edge s = Inl IndexError"
  by (simp add: connection_edge_def py_split_def py_index_def str_arrow split_from_absent)

lemma connection_edge_one_arrow:
  "\<not> sublist (str ''->'') a \<Longrightarrow> \<not> sublist (str ''->'') b \<Longrightarrow>
     connection_edge (a @ str ''->'' @ b) = Inr (py_strip a, py_strip b)"
  by (simp add: connection_edge_def py_split_def py_index_def str_arrow split_from_arrow
      split_from_absent)

lemma connection_edge_more_arrows:
  "\<not> sublist (str ''->'') a \<Longrightarrow> \<not> sublist (str ''->'') b \<Longrightarrow>
     connection_edge (a @ str ''->'' @ b @ str ''->'' @ c) = Inr (py_strip a, py_strip b)"
  by (simp add: connection_edge_def py_split_def py_index_def str_arrow split_from_arrow)

lemma topology_loop_edges:
  "graph_edges (topology_loop g cs) =
     graph_edges g @ concat (map (\<lambda>c. case connection_edge c of Inl e \<Rightarrow> [] | Inr p \<Rightarrow> [p]) cs)"
  by (induction cs arbitrary: g) (auto simp: graph_edge_def split: sum.splits)

lemma sublist_skip: "sublist xs ys \<Longrightarrow> sublist xs (zs @ ys)"
  by (metis sublist_append)

lemma prompt_topic: "sublist topic (get_lab_prompt topic difficulty)"
  unfolding get_lab_prompt_def by (fast intro: sublist_skip sublist_append_rightI)

lemma prompt_difficulty: "sublist difficulty (get_lab_prompt topic difficulty)"
  unfolding get_lab_prompt_def by (fast intro: sublist_skip sublist_append_rightI)

lemma prompt_fence_json: "sublist (str ''```json'') (get_lab_prompt topic difficulty)"
  unfolding get_lab_prompt_def by (fast intro: sublist_skip sublist_append_rightI)

lemma prompt_fence: "sublist (str ''```'') (get_lab_prompt topic difficulty)"
proof -
  have "sublist (str ''```'') (str ''```json'')" by (simp add: str_def)
  then show ?thesis using prompt_fence_json sublist_order.order_trans by blast
qed

lemma scan_once_numeral:
  "scan_once F (numeral k) s = scan_once F (Suc (pred_numeral k)) s"
  by (simp add: numeral_eq_Suc)

lemma array_loop_numeral:
  "array_loop F (numeral k) acc s = array_loop F (Suc (pred_numeral k)) acc s"
  by (simp add: numeral_eq_Suc)

lemma object_loop_numeral:
  "object_loop F (numeral k) acc s = object_loop F (Suc (pred_numeral k)) acc s"
  by (simp add: numeral_eq_Suc)

lemmas json_eval =
  json_loads_def str_def skip_ws_def json_ws_def scan_once_numeral array_loop_numeral
  object_loop_numeral

section \<open>Properties of the Prompt Builder\<close>

text \<open>
  C2, as the code has it: for every topic and difficulty of the two enumerations, the
  prompt contains the topic and the difficulty verbatim, and it does contain a code-fence
  marker: the sentence telling the model not to add one quotes \<^verbatim>\<open>```json\<close>.
\<close>

theorem prompt_contains_topic_difficulty_fence:
  "topic \<in> set topics \<Longrightarrow> difficulty \<in> set difficulties \<Longrightarrow>
     sublist topic (get_lab_prompt topic difficulty) \<and>
     sublist difficulty (get_lab_prompt topic difficulty) \<and>
     sublist (str ''```json'') (get_lab_prompt topic difficulty)"
  by (simp add: prompt_topic prompt_difficulty prompt_fence_json)

theorem prompt_contains_topic_difficulty_fence_witness:
  "str ''VLANs & Trunking'' \<in> set topics \<and> str ''Network Engineer'' \<in> set difficulties \<and>
   sublist (str ''VLANs & Trunking'')
     (get_lab_prompt (str ''VLANs & Trunking'') (str ''Network Engineer'')) \<and>
   sublist (str ''Network Engineer'')
     (get_lab_prompt (str ''VLANs & Trunking'') (str ''Network Engineer'')) \<and>
   sublist (str ''```json'') (get_lab_prompt (str ''VLANs & Trunking'') (str ''Network Engineer''))"
  using prompt_contains_topic_difficulty_fence
    [of "str ''VLANs & Trunking''" "str ''Network Engineer''"]
  by (simp add: topics_def difficulties_def)

text \<open>
  The claim as stated (no occurrence of three backticks in the prompt) fails already for
  the first topic and the first difficulty.
\<close>

theorem prompt_has_fence_counterexample:
  "str ''OSPF Single Area'' \<in> set topics \<and> str ''Junior Admin'' \<in> set difficulties \<and>
   sublist (str ''```'') (get_lab_prompt (str ''OSPF Single Area'') (str ''Junior Admin''))"
  by (simp add: topics_def difficulties_def prompt_fence)

section \<open>Properties of the clean-up step\<close>

text \<open>
  C10: whatever the response text, no occurrence of \<^verbatim>\<open>```\<close> (hence none of \<^verbatim>\<open>```json\<close>) is
  left in the cleaned text; so a text holding the marker anywhere, also inside a JSON
  string value, is altered before it is parsed.
\<close>

theorem clean_text_removes_every_fence:
  "\<not> sublist (str ''```'') (clean_text raw) \<and>
   \<not> sublist (str ''```json'') (clean_text raw) \<and>
   (sublist (str ''```'') raw \<longrightarrow> clean_text raw \<noteq> raw)"
proof -
  have a: "\<not> sublist (str ''```'') (clean_text raw)"
    by (simp add: clean_text_def str_fence no_fence_after_replace)
  have "sublist (str ''```'') (str ''```json'')"
    by (simp add: str_def)
  then have b: "\<not> sublist (str ''```json'') (clean_text raw)"
    using a sublist_order.order_trans by blast
  from a b show ?thesis by auto
qed

theorem clean_text_removes_every_fence_witness:
  \<open>sublist (str ''```'') (str ''{"a":"x```y"}'') \<and>
   clean_text (str ''{"a":"x```y"}'') \<noteq> str ''{"a":"x```y"}'' \<and>
   clean_text (str ''{"a":"x```y"}'') = str ''{"a":"xy"}'' \<and>
   json_loads no_floats (clean_text (str ''{"a":"x```y"}'')) =
     Inr (JObj [(str ''a'', JStr (str ''xy''))])\<close>
proof -
  have c: \<open>clean_text (str ''{"a":"x```y"}'') = str ''{"a":"xy"}''\<close>
    by (simp add: clean_text_def str_def)
  have s: \<open>sublist (str ''```'') (str ''{"a":"x```y"}'')\<close>
    by (simp add: str_def sublist_Cons_right)
  have j: \<open>json_loads no_floats (str ''{"a":"xy"}'') = Inr (JObj [(str ''a'', JStr (str ''xy''))])\<close>
    by (simp add: json_eval del: Suc_numeral)
  from clean_text_removes_every_fence [of \<open>str ''{"a":"x```y"}''\<close>] s
  have \<open>clean_text (str ''{"a":"x```y"}'') \<noteq> str ''{"a":"x```y"}''\<close> by blast
  with c s j show ?thesis by simp
qed

text \<open>
  C5, as the code has it: if the JSON text \<open>J\<close> holds no three backticks itself, the
  clean-up of \<open>J\<close> wrapped in \<^verbatim>\<open>```json\<close> and \<^verbatim>\<open>```\<close> is \<open>J\<close>, and parsing it gives what parsing
  \<open>J\<close> gives.
\<close>

theorem clean_text_unwraps_fenced_json:
  "json_loads F J = Inr v \<Longrightarrow> \<not> sublist (str ''```'') J \<Longrightarrow>
     clean_text (str ''```json'' @ J @ str ''```'') = J \<and>
     json_loads F (clean_text (str ''```json'' @ J @ str ''```'')) = Inr v"
  by (simp add: clean_text_wrapped)

theorem clean_text_unwraps_fenced_json_witness:
  \<open>json_loads no_floats (str ''{"tasks":[]}'') = Inr (JObj [(str ''tasks'', JArr [])]) \<and>
   \<not> sublist (str ''```'') (str ''{"tasks":[]}'') \<and>
   clean_text (str ''```json'' @ str ''{"tasks":[]}'' @ str ''```'') = str ''{"tasks":[]}'' \<and>
   json_loads no_floats (clean_text (str ''```json'' @ str ''{"tasks":[]}'' @ str ''```'')) =
     Inr (JObj [(str ''tasks'', JArr [])])\<close>
proof -
  have j: \<open>json_loads no_floats (str ''{"tasks":[]}'') = Inr (JObj [(str ''tasks'', JArr [])])\<close>
    by (simp add: json_eval del: Suc_numeral)
  have n: \<open>\<not> sublist (str ''```'') (str ''{"tasks":[]}'')\<close>
    by (simp add: str_def sublist_Cons_right)
  from clean_text_unwraps_fenced_json [OF j n] j n show ?thesis by simp
qed

text \<open>
  The claim as stated fails for a JSON text with the marker inside a string value: the
  text parses, and the clean-up of its wrapping is another text.
\<close>

theorem clean_text_alters_json_counterexample:
  \<open>json_loads no_floats (str ''{"a":"```"}'') = Inr (JObj [(str ''a'', JStr (str ''```''))]) \<and>
   clean_text (str ''```json'' @ str ''{"a":"```"}'' @ str ''```'') = str ''{"a":""}'' \<and>
   clean_text (str ''```json'' @ str ''{"a":"```"}'' @ str ''```'') \<noteq> str ''{"a":"```"}''\<close>
proof -
  have j: \<open>json_loads no_floats (str ''{"a":"```"}'') = Inr (JObj [(str ''a'', JStr (str ''```''))])\<close>
    by (simp add: json_eval del: Suc_numeral)
  have c: \<open>clean_text (str ''```json'' @ str ''{"a":"```"}'' @ str ''```'') = str ''{"a":""}''\<close>
    by (simp add: clean_text_def str_def)
  have d: \<open>str ''{"a":""}'' \<noteq> str ''{"a":"```"}''\<close>
    by (simp add: str_def)
  from j c d show ?thesis by simp
qed

section \<open>Properties of the Topology Extractor\<close>

text \<open>
  C3, as the code has it: an entry is split at every occurrence of \<^verbatim>\<open>->\<close>. An entry with
  no occurrence is skipped (the second segment is missing, and the exception is swallowed);
  any other entry adds the edge whose source and destination are its first two segments,
  trimmed, whether or not they are empty and whatever follows a second occurrence.
\<close>

theorem topology_loop_entry:
  "(\<not> sublist (str ''->'') s \<longrightarrow> topology_loop g (s # rest) = topology_loop g rest) \<and>
   (\<not> sublist (str ''->'') a \<and> \<not> sublist (str ''->'') b \<longrightarrow>
      topology_loop g ((a @ str ''->'' @ b) # rest) =
        topology_loop (graph_edge g (py_strip a) (py_strip b)) rest \<and>
      topology_loop g ((a @ str ''->'' @ b @ str ''->'' @ c) # rest) =
        topology_loop (graph_edge g (py_strip a) (py_strip b)) rest)"
  by (simp add: connection_edge_no_arrow connection_edge_one_arrow connection_edge_more_arrows)

theorem topology_loop_entry_witness:
  "\<not> sublist (str ''->'') (str ''x-y'') \<and>
   topology_loop new_digraph [str ''x-y''] = new_digraph \<and>
   \<not> sublist (str ''->'') (str ''A '') \<and> \<not> sublist (str ''->'') (str '' B'') \<and>
   topology_loop new_digraph [str ''A '' @ str ''->'' @ str '' B''] =
     graph_edge new_digraph (py_strip (str ''A '')) (py_strip (str '' B'')) \<and>
   topology_loop new_digraph [str ''A '' @ str ''->'' @ str '' B'' @ str ''->'' @ str ''C''] =
     graph_edge new_digraph (py_strip (str ''A '')) (py_strip (str '' B''))"
proof -
  have n: "\<not> sublist (str ''->'') (str ''x-y'')" "\<not> sublist (str ''->'') (str ''A '')"
    "\<not> sublist (str ''->'') (str '' B'')"
    by (simp_all add: str_def sublist_Cons_right)
  from topology_loop_entry [of "str ''x-y''" new_digraph "[]" "str ''A ''" "str '' B''" "str ''C''"] n
  show ?thesis by simp
qed

text \<open>
  The claim as stated fails on an entry with two delimiters (the specification's split at
  the first one gives another destination) and on an entry with an empty segment (the
  specification discards it, the code adds the edge).
\<close>

theorem connection_edge_spec_counterexample:
  "connection_edge (str ''A->B->C'') = Inr (str ''A'', str ''B'') \<and>
   spec_connection_edge (str ''A->B->C'') = Some (str ''A'', str ''B->C'') \<and>
   connection_edge (str ''->B'') = Inr ([], str ''B'') \<and>
   spec_connection_edge (str ''->B'') = None \<and>
   extract_edges [str ''A->B->C'', str ''->B''] = [(str ''A'', str ''B''), ([], str ''B'')]"
  by (simp add: connection_edge_def spec_connection_edge_def py_split_def py_index_def
      py_strip_def py_isspace_def str_def extract_edges_def new_digraph_def graph_edge_def)

text \<open>
  C6: on the three entries of the example the extractor returns exactly the two edges, in
  that order, dropping the middle entry; and in general the edges of a sequence are the
  edges of its entries, one after the other in the order of the entries, so that the edges
  of a concatenation are the edges of its first part followed by those of its second.
\<close>

theorem extract_edges_example_and_order:
  "extract_edges [str ''RouterA (G0/0) -> SwitchA (G0/1)'', str ''garbage-no-arrow'',
       str ''SwitchA (F0/2) -> PC1''] =
     [(str ''RouterA (G0/0)'', str ''SwitchA (G0/1)''), (str ''SwitchA (F0/2)'', str ''PC1'')] \<and>
   extract_edges (xs @ ys) = extract_edges xs @ extract_edges ys \<and>
   extract_edges cs =
     concat (map (\<lambda>c. case connection_edge c of Inl e \<Rightarrow> [] | Inr p \<Rightarrow> [p]) cs)"
proof -
  have a: "extract_edges [str ''RouterA (G0/0) -> SwitchA (G0/1)'', str ''garbage-no-arrow'',
       str ''SwitchA (F0/2) -> PC1''] =
     [(str ''RouterA (G0/0)'', str ''SwitchA (G0/1)''), (str ''SwitchA (F0/2)'', str ''PC1'')]"
    by (simp add: extract_edges_def new_digraph_def graph_edge_def connection_edge_def
        py_split_def py_index_def py_strip_def py_isspace_def str_def)
  have b: "extract_edges zs =
     concat (map (\<lambda>c. case connection_edge c of Inl e \<Rightarrow> [] | Inr p \<Rightarrow> [p]) zs)" for zs
    by (simp add: extract_edges_def topology_loop_edges new_digraph_def)
  from a b [of cs] b [of "xs @ ys"] b [of xs] b [of ys] show ?thesis by simp
qed

section \<open>What the Lab Generator returns, and the stored Lab\<close>

lemma clean_tasks: \<open>clean_text (str ''{"tasks":[]}'') = str ''{"tasks":[]}''\<close>
  by (simp add: clean_text_def str_def)

lemma loads_tasks:
  \<open>json_loads no_floats (str ''{"tasks":[]}'') = Inr (JObj [(str ''tasks'', JArr [])])\<close>
  by (simp add: json_eval del: Suc_numeral)

lemma loads_oops: "json_loads no_floats (clean_text (str ''oops'')) = Inl JSONDecodeError"
  by (simp add: clean_text_def json_eval match_number_def is_digit_def del: Suc_numeral)

lemma missing_tasks: "missing_field (JObj [(str ''tasks'', JArr [])] :: unit json)"
  by (simp add: missing_field_def lab_fields_def str_def)

lemma key_nonempty: "str ''key'' \<noteq> []"
  by (simp add: str_def)

text \<open>
  C1, as the code has it: \<open>generate_lab\<close> checks no field. When the cleaned response parses,
  the parsed value is returned as it is, also when one of the seven fields is missing, and
  no error is shown; no Lab and the generation error are the outcome only when the text
  does not parse (or the provider call raises).
\<close>

theorem generate_lab_returns_partial_lab:
  "api_key \<noteq> [] \<Longrightarrow> provider (get_lab_prompt topic difficulty) = Inr text \<Longrightarrow>
     (json_loads F (clean_text text) = Inr v \<and> missing_field v \<longrightarrow>
        fst (generate_lab F provider api_key topic difficulty st) = v \<and>
        errors_shown (snd (generate_lab F provider api_key topic difficulty st)) =
          errors_shown st) \<and>
     (json_loads F (clean_text text) = Inl e \<longrightarrow>
        fst (generate_lab F provider api_key topic difficulty st) = JNull \<and>
        errors_shown (snd (generate_lab F provider api_key topic difficulty st)) =
          errors_shown st @ [GenerationFailed e])"
  by (simp add: generate_lab_def st_error_def)

theorem generate_lab_returns_partial_lab_witness:
  \<open>str ''key'' \<noteq> [] \<and>
   json_loads no_floats (clean_text (str ''{"tasks":[]}'')) = Inr (JObj [(str ''tasks'', JArr [])]) \<and>
   missing_field (JObj [(str ''tasks'', JArr [])] :: unit json) \<and>
   fst (generate_lab no_floats (\<lambda>prompt. Inr (str ''{"tasks":[]}'')) (str ''key'')
          (str ''BGP Basics'') (str ''Junior Admin'')
          \<lparr>errors_shown = [], provider_calls = [], session_lab = None\<rparr>) =
     JObj [(str ''tasks'', JArr [])] \<and>
   json_loads no_floats (clean_text (str ''oops'')) = Inl JSONDecodeError \<and>
   errors_shown (snd (generate_lab no_floats (\<lambda>prompt. Inr (str ''oops'')) (str ''key'')
          (str ''BGP Basics'') (str ''Junior Admin'')
          \<lparr>errors_shown = [], provider_calls = [], session_lab = None\<rparr>)) =
     [GenerationFailed JSONDecodeError]\<close>
proof -
  have l: \<open>json_loads no_floats (clean_text (str ''{"tasks":[]}'')) =
      Inr (JObj [(str ''tasks'', JArr [])])\<close>
    by (simp only: clean_tasks loads_tasks)
  from generate_lab_returns_partial_lab
    [of \<open>str ''key''\<close> \<open>\<lambda>prompt. Inr (str ''{"tasks":[]}'')\<close> \<open>str ''BGP Basics''\<close>
      \<open>str ''Junior Admin''\<close> \<open>str ''{"tasks":[]}''\<close> no_floats
      \<open>JObj [(str ''tasks'', JArr [])]\<close>
      \<open>\<lparr>errors_shown = [], provider_calls = [], session_lab = None\<rparr>\<close> JSONDecodeError]
    generate_lab_returns_partial_lab
    [of \<open>str ''key''\<close> \<open>\<lambda>prompt. Inr (str ''oops'')\<close> \<open>str ''BGP Basics''\<close>
      \<open>str ''Junior Admin''\<close> \<open>str ''oops''\<close> no_floats
      \<open>JObj [(str ''tasks'', JArr [])]\<close>
      \<open>\<lparr>errors_shown = [], provider_calls = [], session_lab = None\<rparr>\<close> JSONDecodeError]
    key_nonempty l loads_oops missing_tasks
  show ?thesis by simp
qed

text \<open>
  The claim as stated fails on a response that is a JSON object with the only key
  \<^verbatim>\<open>tasks\<close>: six fields are missing, the object is returned and no error is shown.
\<close>

theorem generate_lab_partial_lab_counterexample:
  \<open>missing_field (JObj [(str ''tasks'', JArr [])] :: unit json) \<and>
   generate_lab no_floats (\<lambda>prompt. Inr (str ''{"tasks":[]}'')) (str ''key'')
       (str ''BGP Basics'') (str ''Junior Admin'')
       \<lparr>errors_shown = [], provider_calls = [], session_lab = None\<rparr> =
     (JObj [(str ''tasks'', JArr [])],
      \<lparr>errors_shown = [],
       provider_calls = [get_lab_prompt (str ''BGP Basics'') (str ''Junior Admin'')],
       session_lab = None\<rparr>)\<close>
  using key_nonempty missing_tasks
  by (simp add: generate_lab_def clean_tasks loads_tasks)

text \<open>
  C7, as the code has it: when the attempt fails in the sense of the code (an empty
  credential, an exception of the provider call, or a cleaned response that does not
  parse), \<open>generate_lab\<close> returns \<^verbatim>\<open>None\<close>, one error is shown, and the Lab stored in the
  session state is the one stored before.
\<close>

theorem failed_generation_keeps_session_lab:
  "api_key = [] \<or> (\<exists>e. provider (get_lab_prompt topic difficulty) = Inl e) \<or>
     (\<exists>text e. provider (get_lab_prompt topic difficulty) = Inr text \<and>
        json_loads F (clean_text text) = Inl e) \<Longrightarrow>
   fst (generate_lab F provider api_key topic difficulty st) = JNull \<and>
   session_lab (snd (generate_lab F provider api_key topic difficulty st)) = session_lab st \<and>
   session_lab (generate_button F provider api_key topic difficulty st) = session_lab st \<and>
   length (errors_shown (generate_button F provider api_key topic difficulty st)) =
     Suc (length (errors_shown st))"
  by (auto simp: generate_lab_def generate_button_def st_error_def)

theorem failed_generation_keeps_session_lab_witness:
  \<open>session_lab (generate_button no_floats (\<lambda>prompt. Inr (str ''oops'')) (str ''key'')
       (str ''BGP Basics'') (str ''Junior Admin'')
       \<lparr>errors_shown = [], provider_calls = [],
        session_lab = Some (JObj [(str ''lab_title'', JStr (str ''old''))])\<rparr>) =
     Some (JObj [(str ''lab_title'', JStr (str ''old''))]) \<and>
   session_lab (generate_button no_floats (\<lambda>prompt. Inl (ProviderError (str ''down'')))
       (str ''key'') (str ''BGP Basics'') (str ''Junior Admin'')
       \<lparr>errors_shown = [], provider_calls = [],
        session_lab = Some (JObj [(str ''lab_title'', JStr (str ''old''))])\<rparr>) =
     Some (JObj [(str ''lab_title'', JStr (str ''old''))]) \<and>
   session_lab (generate_button no_floats (\<lambda>prompt. Inr (str ''oops'')) []
       (str ''BGP Basics'') (str ''Junior Admin'')
       \<lparr>errors_shown = [], provider_calls = [],
        session_lab = Some (JObj [(str ''lab_title'', JStr (str ''old''))])\<rparr>) =
     Some (JObj [(str ''lab_title'', JStr (str ''old''))])\<close>
proof -
  have a: \<open>\<exists>text e. (\<lambda>prompt. Inr (str ''oops'') :: py_exn + pystr)
        (get_lab_prompt (str ''BGP Basics'') (str ''Junior Admin'')) = Inr text \<and>
      json_loads no_floats (clean_text text) = Inl e\<close>
    using loads_oops by blast
  have b: \<open>\<exists>e. (\<lambda>prompt. Inl (ProviderError (str ''down'')) :: py_exn + pystr)
        (get_lab_prompt (str ''BGP Basics'') (str ''Junior Admin'')) = Inl e\<close>
    by blast
  from failed_generation_keeps_session_lab
      [of \<open>str ''key''\<close> \<open>\<lambda>prompt. Inr (str ''oops'')\<close> \<open>str ''BGP Basics''\<close>
        \<open>str ''Junior Admin''\<close> no_floats] a
    failed_generation_keeps_session_lab
      [of \<open>str ''key''\<close> \<open>\<lambda>prompt. Inl (ProviderError (str ''down''))\<close>
        \<open>str ''BGP Basics''\<close> \<open>str ''Junior Admin''\<close> no_floats] b
    failed_generation_keeps_session_lab
      [of \<open>[]\<close> \<open>\<lambda>prompt. Inr (str ''oops'')\<close> \<open>str ''BGP Basics''\<close>
        \<open>str ''Junior Admin''\<close> no_floats]
  show ?thesis by simp
qed

text \<open>
  With the malformed responses of the specification, which include a response that parses
  and lacks a field, the claim fails: such a response replaces the stored Lab, and shows no
  error.
\<close>

theorem generate_button_replaces_lab_counterexample:
  \<open>missing_field (JObj [(str ''tasks'', JArr [])] :: unit json) \<and>
   session_lab (generate_button no_floats (\<lambda>prompt. Inr (str ''{"tasks":[]}'')) (str ''key'')
       (str ''BGP Basics'') (str ''Junior Admin'')
       \<lparr>errors_shown = [], provider_calls = [],
        session_lab = Some (JObj [(str ''lab_title'', JStr (str ''old''))])\<rparr>) =
     Some (JObj [(str ''tasks'', JArr [])]) \<and>
   errors_shown (generate_button no_floats (\<lambda>prompt. Inr (str ''{"tasks":[]}'')) (str ''key'')
       (str ''BGP Basics'') (str ''Junior Admin'')
       \<lparr>errors_shown = [], provider_calls = [],
        session_lab = Some (JObj [(str ''lab_title'', JStr (str ''old''))])\<rparr>) = []\<close>
  using key_nonempty missing_tasks
  by (simp add: generate_button_def generate_lab_def clean_tasks loads_tasks)

end
